theory Spec2Isabelle
  imports Complex_Main
begin

section \<open>The device update controller\<close>

text \<open>
  The module \<^verbatim>\<open>sevensense_device/device.py\<close> drives one firmware update of a
  device: wait until the device is idle, download the image, install it, and record the
  outcome. Everything it reads from the
  outside (the clock, the connectivity probe, the battery sensor, the child processes) is
  an input of the model; everything it does to the outside (log records, spawning and
  terminating processes, sleeping) and every write to a field of the device is recorded,
  in order, in a trace.

  Times are the floats of \<open>time.time()\<close>, read here as real numbers. The model follows
  one call of \<open>update\<close> on its own thread: no other thread writes to the device while it
  runs. The module has no \<open>raise\<close> and no handler around its child processes; the
  exception it can meet there, \<open>Popen\<close> failing to start the command, leaves the call
  with the device as it is at that point.
\<close>

subsection \<open>Constants\<close>

definition MAX_UPGRADE_TIME :: real where
  "MAX_UPGRADE_TIME = 10 * 60"

definition MAX_DOWNLOAD_TIME :: real where
  "MAX_DOWNLOAD_TIME = 5 * 60"

definition MAX_WAIT_FOR_IDLE_TIME :: real where
  "MAX_WAIT_FOR_IDLE_TIME = 10 * 60"

definition POLLING_TIME :: real where
  "POLLING_TIME = 1 / 10"

definition DOWNLOAD_URL :: string where
  "DOWNLOAD_URL =
     ''https://raw.githubusercontent.com/MattiaHaas/sevensense/refs/heads/main/images/install.sh''"

subsection \<open>The device\<close>

datatype DeviceState = Positioning | Idle | Downloading | Upgrading | Downgrading

datatype UpgradeStatus = No_Update | Success | Failed

record Device =
  software_version :: int
  device_type :: "string option"
  last_upgrade_status :: UpgradeStatus
  state :: DeviceState

subsection \<open>Effects\<close>

datatype level = DEBUG | INFO | WARNING | ERROR

text \<open>
  One entry of the trace: a record handed to the logger, a write to a field of the
  device, or a call on the child process or on \<open>time.sleep\<close>.
\<close>

datatype event =
    Log level string
  | Set_state DeviceState
  | Set_last_upgrade_status UpgradeStatus
  | Set_software_version int
  | Popen "string list"
  | Terminate
  | Process_wait
  | Sleep real

record sys =
  dev :: Device
  trace :: "event list"

text \<open>
  What \<open>subprocess.Popen\<close> raises when the command cannot be started (the executable is
  missing or may not be run, or the system refuses to create the process). Nothing in the
  module catches it.
\<close>

datatype exn = FileNotFoundError | PermissionError | OSError

text \<open>
  How a call stands at the end of the observations: it has returned a boolean, it has been
  left by an exception, or it is still polling.
\<close>

datatype outcome = Returned bool | Raised exn | Polling

definition emit :: "event \<Rightarrow> sys \<Rightarrow> sys" where
  "emit e s = s\<lparr>trace := trace s @ [e]\<rparr>"

definition logger :: "level \<Rightarrow> string \<Rightarrow> sys \<Rightarrow> sys" where
  "logger l msg s = emit (Log l msg) s"

definition set_state :: "DeviceState \<Rightarrow> sys \<Rightarrow> sys" where
  "set_state v s = emit (Set_state v) (s\<lparr>dev := (dev s)\<lparr>state := v\<rparr>\<rparr>)"

definition set_last_upgrade_status :: "UpgradeStatus \<Rightarrow> sys \<Rightarrow> sys" where
  "set_last_upgrade_status v s =
     emit (Set_last_upgrade_status v) (s\<lparr>dev := (dev s)\<lparr>last_upgrade_status := v\<rparr>\<rparr>)"

definition set_software_version :: "int \<Rightarrow> sys \<Rightarrow> sys" where
  "set_software_version v s =
     emit (Set_software_version v) (s\<lparr>dev := (dev s)\<lparr>software_version := v\<rparr>\<rparr>)"

text \<open>
  \<open>subprocess.Popen(command, ...)\<close>: the second argument is what the call does, \<open>None\<close>
  when it returns the started process and \<open>Some e\<close> when it raises \<open>e\<close>. The calls on a
  started process (\<open>terminate\<close>, \<open>wait\<close>, \<open>poll\<close>, \<open>readline\<close>) are taken to return.
\<close>

definition popen :: "string list \<Rightarrow> exn option \<Rightarrow> sys \<Rightarrow> exn option \<times> sys" where
  "popen command spawn s = (spawn, emit (Popen command) s)"

definition terminate :: "sys \<Rightarrow> sys" where
  "terminate s = emit Terminate s"

definition process_wait :: "sys \<Rightarrow> sys" where
  "process_wait s = emit Process_wait s"

definition sleep :: "real \<Rightarrow> sys \<Rightarrow> sys" where
  "sleep d s = emit (Sleep d) s"

subsection \<open>Formatting an integer, as an f-string does\<close>

definition digit_char :: "nat \<Rightarrow> char" where
  "digit_char d = ''0123456789'' ! d"

fun str_nat :: "nat \<Rightarrow> string" where
  "str_nat n = (if n < 10 then [digit_char n] else str_nat (n div 10) @ [digit_char (n mod 10)])"

declare str_nat.simps [simp del]

definition str_int :: "int \<Rightarrow> string" where
  "str_int i = (if i < 0 then CHR ''-'' # str_nat (nat (- i)) else str_nat (nat i))"

subsection \<open>Queries\<close>

definition get_last_upgrade_result :: "sys \<Rightarrow> UpgradeStatus" where
  "get_last_upgrade_result s = last_upgrade_status (dev s)"

definition get_current_state :: "sys \<Rightarrow> DeviceState" where
  "get_current_state s = state (dev s)"

definition get_current_version :: "sys \<Rightarrow> int" where
  "get_current_version s = software_version (dev s)"

text \<open>
  The connectivity probe: the argument is what \<open>requests.get\<close> did, the status code of
  the response or \<open>None\<close> for a \<open>RequestException\<close>.
\<close>

definition get_connection_status :: "nat option \<Rightarrow> bool" where
  "get_connection_status response =
     (case response of Some status_code \<Rightarrow> status_code = 200 | None \<Rightarrow> False)"

text \<open>
  The power probe: the argument is what \<open>psutil.sensors_battery()\<close> returned, \<open>None\<close> or
  a battery with its \<open>power_plugged\<close> flag, a boolean as the return annotation of the
  method has it.
\<close>

definition get_power_status :: "bool option \<Rightarrow> sys \<Rightarrow> bool \<times> sys" where
  "get_power_status battery s =
     (case battery of
        Some power_plugged \<Rightarrow> (power_plugged, s)
      | None \<Rightarrow> (False, logger WARNING ''Unable to determine battery status.'' s))"

subsection \<open>The timeout guard\<close>

text \<open>The first argument is the value \<open>time.time()\<close> returns inside the call.\<close>

definition check_time_not_exceeded :: "real \<Rightarrow> real \<Rightarrow> real \<Rightarrow> bool" where
  "check_time_not_exceeded now start_time duration =
     (if start_time - now < duration then True else False)"

definition check_install_timeout :: "real \<Rightarrow> real \<Rightarrow> bool" where
  "check_install_timeout now start_time =
     check_time_not_exceeded now start_time MAX_UPGRADE_TIME"

definition check_download_timeout :: "real \<Rightarrow> real \<Rightarrow> bool" where
  "check_download_timeout now start_time =
     check_time_not_exceeded now start_time MAX_DOWNLOAD_TIME"

subsection \<open>Waiting for a condition\<close>

text \<open>
  A polling loop runs against the observations of its ticks, one list element per
  iteration. The result \<open>Polling\<close> says that the loop is still polling when the
  observations end: it has neither returned nor failed so far.

  For \<open>wait\<close> a tick is the clock reading of the loop condition; \<open>start_time\<close> is the
  reading taken before the loop.
\<close>

fun wait_loop ::
  "'a \<Rightarrow> (sys \<Rightarrow> 'a) \<Rightarrow> real \<Rightarrow> real \<Rightarrow> real list \<Rightarrow> sys \<Rightarrow> outcome \<times> sys" where
  "wait_loop target get_current timeout_duration start_time [] s = (Polling, s)"
| "wait_loop target get_current timeout_duration start_time (now # ticks) s =
     (if check_time_not_exceeded now start_time timeout_duration then
        (if target = get_current s then (Returned True, s)
         else wait_loop target get_current timeout_duration start_time ticks
                (sleep POLLING_TIME s))
      else (Returned False, s))"

definition wait ::
  "'a \<Rightarrow> (sys \<Rightarrow> 'a) \<Rightarrow> real \<Rightarrow> real \<Rightarrow> real list \<Rightarrow> sys \<Rightarrow> outcome \<times> sys" where
  "wait target get_current timeout_duration start_time ticks s =
     wait_loop target get_current timeout_duration start_time ticks s"

subsection \<open>The download phase\<close>

text \<open>
  What one iteration of the download loop can observe: the answer to the connectivity
  request, the clock, and \<open>process.poll()\<close> (\<open>None\<close> while the process runs, its return
  code afterwards).
\<close>

record download_tick =
  d_response :: "nat option"
  d_now :: real
  d_poll :: "int option"

fun download_loop :: "real \<Rightarrow> download_tick list \<Rightarrow> sys \<Rightarrow> outcome \<times> sys" where
  "download_loop start_time [] s = (Polling, s)"
| "download_loop start_time (t # ticks) s =
     (if \<not> get_connection_status (d_response t) then
        (Returned False,
         process_wait (terminate
           (logger ERROR ''Internet connection lost during download.'' s)))
      else if \<not> check_download_timeout (d_now t) start_time then
        (Returned False,
         process_wait (terminate
           (logger ERROR ''Download timed out after 300 seconds.'' s)))
      else if d_poll t \<noteq> None then
        (Returned True, logger INFO ''Download completed successfully.'' s)
      else download_loop start_time ticks (sleep POLLING_TIME s))"

text \<open>
  \<open>spawn\<close> is what \<open>Popen\<close> does in this call; \<open>start_time\<close> and the ticks are read
  only once the process has been started.
\<close>

definition download_image ::
  "int \<Rightarrow> exn option \<Rightarrow> real \<Rightarrow> download_tick list \<Rightarrow> sys \<Rightarrow> outcome \<times> sys" where
  "download_image new_version spawn start_time ticks s =
     (if state (dev s) \<noteq> Idle then (Returned False, s)
      else
        let s1 = logger INFO
                   (''Starting software version '' @ str_int new_version @ '' download.'') s;
            s2 = set_state Downloading s1
        in case popen [''curl'', ''-O'', DOWNLOAD_URL] spawn s2 of
             (Some e, s3) \<Rightarrow> (Raised e, s3)
           | (None, s3) \<Rightarrow> download_loop start_time ticks s3)"

subsection \<open>The install phase\<close>

text \<open>Python's \<open>str.strip()\<close> on ASCII text.\<close>

definition is_space :: "char \<Rightarrow> bool" where
  "is_space c = (let n = (of_char c :: nat) in (9 \<le> n \<and> n \<le> 13) \<or> (28 \<le> n \<and> n \<le> 32))"

definition strip :: "string \<Rightarrow> string" where
  "strip x = rev (dropWhile is_space (rev (dropWhile is_space x)))"

text \<open>
  The inner loop over \<open>process.stdout.readline()\<close>: the argument holds the lines the
  successive calls return; the empty string, or the end of the list, is the end of the
  output and stops the loop.
\<close>

fun drain_output :: "string list \<Rightarrow> sys \<Rightarrow> sys" where
  "drain_output [] s = s"
| "drain_output (output # later) s =
     (if output = [] then s else drain_output later (logger DEBUG (strip output) s))"

record install_tick =
  i_battery :: "bool option"
  i_now :: real
  i_lines :: "string list"
  i_poll :: "int option"

fun install_loop :: "real \<Rightarrow> install_tick list \<Rightarrow> sys \<Rightarrow> outcome \<times> sys" where
  "install_loop start_time [] s = (Polling, s)"
| "install_loop start_time (t # ticks) s =
     (case get_power_status (i_battery t) s of (powered, s1) \<Rightarrow>
        if \<not> powered then
          (Returned False,
           process_wait (terminate
             (logger ERROR ''Power loss detected during the upgrade.'' s1)))
        else if \<not> check_install_timeout (i_now t) start_time then
          (Returned False,
           process_wait (terminate
             (logger ERROR ''Upgrade timed out after 600 seconds.'' s1)))
        else
          let s2 = drain_output (i_lines t) s1 in
          if i_poll t \<noteq> None then
            (Returned True, logger INFO ''Upgrade completed successfully.'' s2)
          else install_loop start_time ticks (sleep POLLING_TIME s2))"

definition install_image ::
  "int \<Rightarrow> exn option \<Rightarrow> real \<Rightarrow> install_tick list \<Rightarrow> sys \<Rightarrow> outcome \<times> sys" where
  "install_image new_version spawn start_time ticks s =
     (if state (dev s) \<noteq> Downloading then (Returned False, s)
      else
        let s1 = logger INFO
                   (''Starting software update version '' @ str_int new_version
                      @ '' installation.'') s;
            s2 = (if software_version (dev s1) > new_version
                  then set_state Downgrading s1
                  else set_state Upgrading s1)
        in case popen [''sh'', ''install.sh''] spawn s2 of
             (Some e, s3) \<Rightarrow> (Raised e, s3)
           | (None, s3) \<Rightarrow> install_loop start_time ticks s3)"

subsection \<open>The update\<close>

text \<open>What one call of \<open>update\<close> observes: the two spawns and the three loops.\<close>

record world =
  wait_start :: real
  wait_ticks :: "real list"
  download_spawn :: "exn option"
  download_start :: real
  download_ticks :: "download_tick list"
  install_spawn :: "exn option"
  install_start :: real
  install_ticks :: "install_tick list"

definition update :: "int \<Rightarrow> world \<Rightarrow> sys \<Rightarrow> outcome \<times> sys" where
  "update new_version w s =
     (case wait Idle get_current_state MAX_WAIT_FOR_IDLE_TIME (wait_start w) (wait_ticks w) s of
        (Polling, s1) \<Rightarrow> (Polling, s1)
      | (Raised e, s1) \<Rightarrow> (Raised e, s1)
      | (Returned transitioned_to_idle, s1) \<Rightarrow>
          if \<not> transitioned_to_idle then
            (Returned False,
             logger ERROR
               ''The update could not be performed as the device state is not idle.'' s1)
          else if software_version (dev s1) = new_version then
            (Returned False,
             logger INFO ''The current version and the new version are the same.'' s1)
          else
            (case download_image new_version (download_spawn w) (download_start w)
                    (download_ticks w) s1 of
               (Polling, s2) \<Rightarrow> (Polling, s2)
             | (Raised e, s2) \<Rightarrow> (Raised e, s2)
             | (Returned download_success, s2) \<Rightarrow>
                 if \<not> download_success then
                   (Returned False, set_state Idle (set_last_upgrade_status Failed s2))
                 else
                   (case install_image new_version (install_spawn w) (install_start w)
                           (install_ticks w) s2 of
                      (Polling, s3) \<Rightarrow> (Polling, s3)
                    | (Raised e, s3) \<Rightarrow> (Raised e, s3)
                    | (Returned upgrade_success, s3) \<Rightarrow>
                        if \<not> upgrade_success then
                          (Returned False, set_state Idle (set_last_upgrade_status Failed s3))
                        else
                          let s4 = set_last_upgrade_status Success s3;
                              s5 = set_software_version new_version s4;
                              s6 = set_state Idle s5;
                              s7 = logger INFO
                                     (''Software update to version '' @ str_int new_version
                                        @ '' complete.'') s6
                          in (Returned True, s7))))"

section \<open>Properties\<close>

subsection \<open>What the operations touch\<close>

text \<open>
  Emitting an event leaves the device alone and appends to the trace; the loops write no
  field of the device, and no phase writes \<open>last_upgrade_status\<close>.
\<close>

lemma dev_emit [simp]: "dev (emit e s) = dev s"
  by (simp add: emit_def)

lemma trace_emit [simp]: "trace (emit e s) = trace s @ [e]"
  by (simp add: emit_def)

lemmas effect_defs =
  logger_def set_state_def set_last_upgrade_status_def set_software_version_def
  terminate_def process_wait_def sleep_def

lemma wait_loop_dev [simp]:
  "dev (snd (wait_loop target get_current d st ticks s)) = dev s"
  by (induction ticks arbitrary: s) (simp_all add: effect_defs)

lemma download_loop_dev [simp]: "dev (snd (download_loop st ticks s)) = dev s"
  by (induction ticks arbitrary: s) (simp_all add: effect_defs)

lemma drain_output_dev [simp]: "dev (drain_output ls s) = dev s"
  by (induction ls arbitrary: s) (simp_all add: effect_defs)

lemma get_power_status_dev [simp]: "dev (snd (get_power_status b s)) = dev s"
  by (simp add: get_power_status_def effect_defs split: option.splits)

lemma install_loop_dev [simp]: "dev (snd (install_loop st ticks s)) = dev s"
proof (induction ticks arbitrary: s)
  case Nil
  show ?case by simp
next
  case (Cons t ticks)
  obtain p s1 where g: "get_power_status (i_battery t) s = (p, s1)"
    by (cases "get_power_status (i_battery t) s")
  have d: "dev s1 = dev s"
    using get_power_status_dev [of "i_battery t" s] g by simp
  show ?case
    using g d Cons.IH by (simp add: effect_defs Let_def)
qed

lemma wait_loop_trace:
  "\<exists>n. trace (snd (wait_loop target get_current d st ticks s))
         = trace s @ replicate n (Sleep POLLING_TIME)"
proof (induction ticks arbitrary: s)
  case Nil
  show ?case by simp
next
  case (Cons now ticks)
  show ?case
  proof (cases "check_time_not_exceeded now st d \<and> target \<noteq> get_current s")
    case True
    obtain n where "trace (snd (wait_loop target get_current d st ticks (sleep POLLING_TIME s)))
         = trace (sleep POLLING_TIME s) @ replicate n (Sleep POLLING_TIME)"
      using Cons.IH by blast
    then have "trace (snd (wait_loop target get_current d st (now # ticks) s))
         = trace s @ replicate (Suc n) (Sleep POLLING_TIME)"
      using True by (simp add: effect_defs)
    then show ?thesis by blast
  next
    case False
    then have "trace (snd (wait_loop target get_current d st (now # ticks) s))
         = trace s @ replicate 0 (Sleep POLLING_TIME)"
      by auto
    then show ?thesis by blast
  qed
qed

lemma download_loop_trace:
  "\<exists>es. trace (snd (download_loop st ticks s)) = trace s @ es
        \<and> (\<forall>v. Set_last_upgrade_status v \<notin> set es)"
proof (induction ticks arbitrary: s)
  case Nil
  show ?case by simp
next
  case (Cons t ticks)
  obtain es where "trace (snd (download_loop st ticks (sleep POLLING_TIME s)))
       = trace (sleep POLLING_TIME s) @ es" "\<forall>v. Set_last_upgrade_status v \<notin> set es"
    using Cons.IH by blast
  then show ?case
    by (auto simp add: effect_defs)
qed

lemma drain_output_trace:
  "\<exists>es. trace (drain_output ls s) = trace s @ es
        \<and> (\<forall>v. Set_last_upgrade_status v \<notin> set es)"
proof (induction ls arbitrary: s)
  case Nil
  show ?case by simp
next
  case (Cons l ls)
  obtain es where "trace (drain_output ls (logger DEBUG (strip l) s))
       = trace (logger DEBUG (strip l) s) @ es" "\<forall>v. Set_last_upgrade_status v \<notin> set es"
    using Cons.IH by blast
  then show ?case
    by (auto simp add: effect_defs)
qed

lemma get_power_status_trace:
  "\<exists>es. trace (snd (get_power_status b s)) = trace s @ es
        \<and> (\<forall>v. Set_last_upgrade_status v \<notin> set es)"
  by (cases b) (simp_all add: get_power_status_def effect_defs)

lemma install_loop_trace:
  "\<exists>es. trace (snd (install_loop st ticks s)) = trace s @ es
        \<and> (\<forall>v. Set_last_upgrade_status v \<notin> set es)"
proof (induction ticks arbitrary: s)
  case Nil
  show ?case by simp
next
  case (Cons t ticks)
  obtain p s1 where g: "get_power_status (i_battery t) s = (p, s1)"
    by (cases "get_power_status (i_battery t) s")
  obtain e1 where e1: "trace s1 = trace s @ e1" "\<forall>v. Set_last_upgrade_status v \<notin> set e1"
    using get_power_status_trace [of "i_battery t" s] g by auto
  define s2 where "s2 = drain_output (i_lines t) s1"
  obtain e2 where e2: "trace s2 = trace s1 @ e2" "\<forall>v. Set_last_upgrade_status v \<notin> set e2"
    unfolding s2_def using drain_output_trace by blast
  obtain e3 where e3: "trace (snd (install_loop st ticks (sleep POLLING_TIME s2)))
       = trace (sleep POLLING_TIME s2) @ e3" "\<forall>v. Set_last_upgrade_status v \<notin> set e3"
    using Cons.IH by blast
  show ?case
    using g e1 e2 e3 by (auto simp add: effect_defs Let_def s2_def [symmetric])
qed

lemma wait_loop_idle:
  "start_time - now < d \<Longrightarrow> target = get_current s \<Longrightarrow>
     wait_loop target get_current d start_time (now # ticks) s = (Returned True, s)"
  by (simp add: check_time_not_exceeded_def)

lemma wait_loop_True_idle:
  "fst (wait_loop Idle get_current_state d st ticks s) = Returned True \<Longrightarrow> state (dev s) = Idle"
proof (induction ticks arbitrary: s)
  case Nil
  then show ?case by simp
next
  case (Cons now ticks)
  show ?case
  proof (cases "state (dev s) = Idle")
    case True
    then show ?thesis .
  next
    case False
    then have "Idle \<noteq> get_current_state s"
      by (auto simp add: get_current_state_def)
    then have "fst (wait_loop Idle get_current_state d st ticks (sleep POLLING_TIME s)) = Returned True"
      using Cons.prems by (simp split: if_splits)
    then have "state (dev (sleep POLLING_TIME s)) = Idle"
      by (rule Cons.IH)
    then show ?thesis
      by (simp add: effect_defs)
  qed
qed

lemma wait_dev [simp]: "dev (snd (wait target get_current d st ticks s)) = dev s"
  by (simp add: wait_def)

lemma wait_trace:
  "\<exists>es. trace (snd (wait target get_current d st ticks s)) = trace s @ es
        \<and> (\<forall>v. Set_last_upgrade_status v \<notin> set es)"
proof -
  obtain n where "trace (snd (wait_loop target get_current d st ticks s))
         = trace s @ replicate n (Sleep POLLING_TIME)"
    using wait_loop_trace [of target get_current d st ticks s] by blast
  then show ?thesis
    by (auto simp add: wait_def)
qed

lemma download_image_not_idle:
  "state (dev s) \<noteq> Idle \<Longrightarrow> download_image new_version sp st ticks s = (Returned False, s)"
  by (simp add: download_image_def)

lemma download_image_spawned:
  "state (dev s) = Idle \<Longrightarrow>
     download_image new_version None st ticks s =
       download_loop st ticks
         (emit (Popen [''curl'', ''-O'', DOWNLOAD_URL])
           (set_state Downloading
             (logger INFO
               (''Starting software version '' @ str_int new_version @ '' download.'') s)))"
  by (simp add: download_image_def Let_def popen_def)

lemma download_image_raised:
  "state (dev s) = Idle \<Longrightarrow>
     download_image new_version (Some e) st ticks s =
       (Raised e,
        emit (Popen [''curl'', ''-O'', DOWNLOAD_URL])
          (set_state Downloading
            (logger INFO
              (''Starting software version '' @ str_int new_version @ '' download.'') s)))"
  by (simp add: download_image_def Let_def popen_def)

lemma download_image_dev:
  "state (dev s) = Idle \<Longrightarrow>
     dev (snd (download_image new_version sp st ticks s)) = (dev s)\<lparr>state := Downloading\<rparr>"
  by (cases sp) (simp_all add: download_image_spawned download_image_raised effect_defs)

lemma download_image_True:
  assumes "fst (download_image new_version sp st ticks s) = Returned True"
  shows "dev (snd (download_image new_version sp st ticks s)) = (dev s)\<lparr>state := Downloading\<rparr>"
proof (cases "state (dev s) = Idle")
  case True
  then show ?thesis by (rule download_image_dev)
next
  case False
  then show ?thesis using assms by (simp add: download_image_not_idle)
qed

lemma download_image_idle_trace:
  assumes "state (dev s) = Idle"
  shows "\<exists>es. trace (snd (download_image new_version sp st ticks s)) =
            trace s
            @ [Log INFO (''Starting software version '' @ str_int new_version @ '' download.''),
               Set_state Downloading,
               Popen [''curl'', ''-O'', DOWNLOAD_URL]]
            @ es
          \<and> (\<forall>v. Set_last_upgrade_status v \<notin> set es)"
proof (cases sp)
  case None
  define s3 where "s3 = emit (Popen [''curl'', ''-O'', DOWNLOAD_URL]) (set_state Downloading
     (logger INFO (''Starting software version '' @ str_int new_version @ '' download.'') s))"
  obtain es where es: "trace (snd (download_loop st ticks s3)) = trace s3 @ es"
      "\<forall>v. Set_last_upgrade_status v \<notin> set es"
    using download_loop_trace by blast
  have "download_image new_version sp st ticks s = download_loop st ticks s3"
    using assms None by (simp add: download_image_spawned s3_def)
  moreover have "trace s3 = trace s
      @ [Log INFO (''Starting software version '' @ str_int new_version @ '' download.''),
         Set_state Downloading, Popen [''curl'', ''-O'', DOWNLOAD_URL]]"
    by (simp add: s3_def effect_defs)
  ultimately show ?thesis
    using es by simp
next
  case (Some e)
  then show ?thesis
    using assms by (simp add: download_image_raised effect_defs)
qed

lemma download_image_trace:
  "\<exists>es. trace (snd (download_image new_version sp st ticks s)) = trace s @ es
        \<and> (\<forall>v. Set_last_upgrade_status v \<notin> set es)"
proof (cases "state (dev s) = Idle")
  case True
  obtain es where "trace (snd (download_image new_version sp st ticks s)) =
            trace s
            @ [Log INFO (''Starting software version '' @ str_int new_version @ '' download.''),
               Set_state Downloading,
               Popen [''curl'', ''-O'', DOWNLOAD_URL]]
            @ es" "\<forall>v. Set_last_upgrade_status v \<notin> set es"
    using download_image_idle_trace [OF True] by blast
  then show ?thesis
    by auto
next
  case False
  then show ?thesis by (simp add: download_image_not_idle)
qed

lemma install_image_not_downloading:
  "state (dev s) \<noteq> Downloading \<Longrightarrow> install_image new_version sp st ticks s = (Returned False, s)"
  by (simp add: install_image_def)

lemma install_image_spawned:
  "state (dev s) = Downloading \<Longrightarrow>
     install_image new_version None st ticks s =
       install_loop st ticks
         (emit (Popen [''sh'', ''install.sh''])
           (set_state (if software_version (dev s) > new_version then Downgrading else Upgrading)
             (logger INFO
               (''Starting software update version '' @ str_int new_version
                  @ '' installation.'') s)))"
  by (simp add: install_image_def Let_def popen_def effect_defs)

lemma install_image_raised:
  "state (dev s) = Downloading \<Longrightarrow>
     install_image new_version (Some e) st ticks s =
       (Raised e,
        emit (Popen [''sh'', ''install.sh''])
          (set_state (if software_version (dev s) > new_version then Downgrading else Upgrading)
            (logger INFO
              (''Starting software update version '' @ str_int new_version
                 @ '' installation.'') s)))"
  by (simp add: install_image_def Let_def popen_def effect_defs)

lemma install_image_dev:
  "state (dev s) = Downloading \<Longrightarrow>
     dev (snd (install_image new_version sp st ticks s)) =
       (dev s)\<lparr>state := (if software_version (dev s) > new_version
                         then Downgrading else Upgrading)\<rparr>"
  by (cases sp) (simp_all add: install_image_spawned install_image_raised effect_defs)

lemma install_image_trace:
  "\<exists>es. trace (snd (install_image new_version sp st ticks s)) = trace s @ es
        \<and> (\<forall>v. Set_last_upgrade_status v \<notin> set es)"
proof (cases "state (dev s) = Downloading")
  case True
  define s3 where "s3 = emit (Popen [''sh'', ''install.sh''])
     (set_state (if software_version (dev s) > new_version then Downgrading else Upgrading)
       (logger INFO (''Starting software update version '' @ str_int new_version
                      @ '' installation.'') s))"
  have s3: "\<exists>e0. trace s3 = trace s @ e0 \<and> (\<forall>v. Set_last_upgrade_status v \<notin> set e0)"
    by (simp add: s3_def effect_defs)
  show ?thesis
  proof (cases sp)
    case None
    obtain es where es: "trace (snd (install_loop st ticks s3)) = trace s3 @ es"
        "\<forall>v. Set_last_upgrade_status v \<notin> set es"
      using install_loop_trace by blast
    have "install_image new_version sp st ticks s = install_loop st ticks s3"
      using True None by (simp add: install_image_spawned s3_def)
    then show ?thesis
      using es s3 by auto
  next
    case (Some e)
    have "install_image new_version sp st ticks s = (Raised e, s3)"
      using True Some by (simp add: install_image_raised s3_def)
    then show ?thesis
      using s3 by auto
  qed
next
  case False
  then show ?thesis by (simp add: install_image_not_downloading)
qed

lemmas model_defs =
  update_def wait_def download_image_def install_image_def popen_def
  check_download_timeout_def check_install_timeout_def check_time_not_exceeded_def
  MAX_WAIT_FOR_IDLE_TIME_def MAX_DOWNLOAD_TIME_def MAX_UPGRADE_TIME_def
  get_current_state_def get_connection_status_def get_power_status_def
  effect_defs emit_def Let_def

subsection \<open>The timeout guard\<close>

text \<open>
  C1. The timeout guard is documented to return true exactly while the elapsed time
  \<open>now - start_time\<close> is below the bound, and false once the elapsed time meets or
  exceeds it. The code subtracts the other way round, \<open>start_time - now\<close>: started at
  time 0 with a bound of 600 and asked at time 700, it answers true although the 700
  seconds elapsed exceed the bound.
\<close>

theorem check_time_not_exceeded_after_bound:
  "check_time_not_exceeded 700 0 600 \<and> (600::real) \<le> 700 - 0"
  by (simp add: check_time_not_exceeded_def)

subsection \<open>Admission\<close>

text \<open>
  C4. A run whose device never reaches \<open>Idle\<close> should give up after
  \<open>MAX_WAIT_FOR_IDLE_TIME\<close> and return with the device untouched. With the guard of C1
  it does not return: as long as the clock does not run backwards, the wait is still polling
  after every tick, however late, and \<open>update\<close> has produced no result. All it has done
  is sleep once per tick; the device is indeed untouched.
\<close>

theorem update_wait_never_times_out:
  assumes "state (dev s) \<noteq> Idle"
    and "\<forall>now \<in> set (wait_ticks w). wait_start w \<le> now"
  shows "update new_version w s =
           (Polling, s\<lparr>trace := trace s @ replicate (length (wait_ticks w)) (Sleep POLLING_TIME)\<rparr>)"
proof -
  have loop: "wait_loop Idle get_current_state MAX_WAIT_FOR_IDLE_TIME (wait_start w) ticks s' =
      (Polling, s'\<lparr>trace := trace s' @ replicate (length ticks) (Sleep POLLING_TIME)\<rparr>)"
    if "state (dev s') \<noteq> Idle" "\<forall>now \<in> set ticks. wait_start w \<le> now" for s' ticks
    using that
  proof (induction ticks arbitrary: s')
    case Nil
    show ?case by simp
  next
    case (Cons now ticks)
    have c: "check_time_not_exceeded now (wait_start w) MAX_WAIT_FOR_IDLE_TIME"
      using Cons.prems(2) by (simp add: check_time_not_exceeded_def MAX_WAIT_FOR_IDLE_TIME_def)
    have n: "Idle \<noteq> get_current_state s'"
      using Cons.prems(1) by (auto simp add: get_current_state_def)
    have "wait_loop Idle get_current_state MAX_WAIT_FOR_IDLE_TIME (wait_start w) (now # ticks) s'
          = wait_loop Idle get_current_state MAX_WAIT_FOR_IDLE_TIME (wait_start w) ticks
              (sleep POLLING_TIME s')"
      using c n by simp
    also have "\<dots> = (Polling, (sleep POLLING_TIME s')\<lparr>trace := trace (sleep POLLING_TIME s')
                       @ replicate (length ticks) (Sleep POLLING_TIME)\<rparr>)"
      using Cons.IH [of "sleep POLLING_TIME s'"] Cons.prems by (simp add: effect_defs)
    finally show ?case
      by (simp add: effect_defs emit_def replicate_append_same)
  qed
  show ?thesis
    using loop [OF assms] by (simp add: update_def wait_def)
qed

theorem update_wait_never_times_out_witness:
  "update 4
     \<lparr>wait_start = 0, wait_ticks = [0, 300, 600, 900],
      download_spawn = None, download_start = 0, download_ticks = [], install_spawn = None, install_start = 0, install_ticks = []\<rparr>
     \<lparr>dev = \<lparr>software_version = 2, device_type = None,
             last_upgrade_status = No_Update, state = Positioning\<rparr>, trace = []\<rparr>
   = (Polling,
      \<lparr>dev = \<lparr>software_version = 2, device_type = None,
              last_upgrade_status = No_Update, state = Positioning\<rparr>,
       trace = [Sleep POLLING_TIME, Sleep POLLING_TIME, Sleep POLLING_TIME,
                Sleep POLLING_TIME]\<rparr>)"
  using update_wait_never_times_out [of
     "\<lparr>dev = \<lparr>software_version = 2, device_type = None,
             last_upgrade_status = No_Update, state = Positioning\<rparr>, trace = []\<rparr>"
     "\<lparr>wait_start = 0, wait_ticks = [0, 300, 600, 900],
      download_spawn = None, download_start = 0, download_ticks = [], install_spawn = None, install_start = 0, install_ticks = []\<rparr>" 4]
  by (simp add: numeral_eq_Suc)

text \<open>
  C2. Asked for the version the device already runs, \<open>update\<close> should leave the device
  with \<open>last_upgrade_status = No_Update\<close> and with state and version unchanged; the test
  of this case says that the last upgrade status should be \<open>No_Update\<close>. The code returns
  without writing any field: an idle device at version 2 whose previous update failed
  returns false from a request for version 2 and still reports \<open>Failed\<close>.
\<close>

theorem update_same_version_after_failure:
  "update 2
     \<lparr>wait_start = 0, wait_ticks = [0],
      download_spawn = None, download_start = 0, download_ticks = [],
      install_spawn = None, install_start = 0, install_ticks = []\<rparr>
     \<lparr>dev = \<lparr>software_version = 2, device_type = None,
             last_upgrade_status = Failed, state = Idle\<rparr>, trace = []\<rparr>
   = (Returned False,
      \<lparr>dev = \<lparr>software_version = 2, device_type = None,
              last_upgrade_status = Failed, state = Idle\<rparr>,
       trace = [Log INFO ''The current version and the new version are the same.'']\<rparr>)"
  by (simp add: update_def wait_def check_time_not_exceeded_def MAX_WAIT_FOR_IDLE_TIME_def
      get_current_state_def effect_defs emit_def)

subsection \<open>The download phase\<close>

text \<open>
  C9. Called while the device is not \<open>Idle\<close>, the download phase returns false at once:
  the device and the trace are unchanged, so no field is written and no process is spawned.
  Called while the device is \<open>Idle\<close>, it writes \<open>state = Downloading\<close> before it spawns
  the download command, and the state stays \<open>Downloading\<close> for the rest of the phase,
  whatever the spawn and the loop do.
\<close>

theorem download_image_guard:
  "(state (dev s) \<noteq> Idle \<longrightarrow>
      download_image new_version spawn start_time ticks s = (Returned False, s))
   \<and> (state (dev s) = Idle \<longrightarrow>
        state (dev (snd (download_image new_version spawn start_time ticks s))) = Downloading
        \<and> (\<exists>es. trace (snd (download_image new_version spawn start_time ticks s)) =
              trace s
              @ [Log INFO (''Starting software version '' @ str_int new_version @ '' download.''),
                 Set_state Downloading,
                 Popen [''curl'', ''-O'', DOWNLOAD_URL]]
              @ es))"
proof (intro conjI impI)
  assume "state (dev s) \<noteq> Idle"
  then show "download_image new_version spawn start_time ticks s = (Returned False, s)"
    by (rule download_image_not_idle)
next
  assume "state (dev s) = Idle"
  then show "state (dev (snd (download_image new_version spawn start_time ticks s)))
      = Downloading"
    by (simp add: download_image_dev)
next
  assume "state (dev s) = Idle"
  then show "\<exists>es. trace (snd (download_image new_version spawn start_time ticks s)) =
              trace s
              @ [Log INFO (''Starting software version '' @ str_int new_version @ '' download.''),
                 Set_state Downloading,
                 Popen [''curl'', ''-O'', DOWNLOAD_URL]]
              @ es"
    using download_image_idle_trace [of s new_version spawn start_time ticks] by blast
qed

theorem download_image_guard_witness:
  "download_image 4 None 0 [\<lparr>d_response = Some 200, d_now = 1, d_poll = Some 0\<rparr>]
     \<lparr>dev = \<lparr>software_version = 2, device_type = None,
             last_upgrade_status = No_Update, state = Positioning\<rparr>, trace = []\<rparr>
   = (Returned False,
      \<lparr>dev = \<lparr>software_version = 2, device_type = None,
             last_upgrade_status = No_Update, state = Positioning\<rparr>, trace = []\<rparr>)
   \<and> state (dev (snd (download_image 4 None 0 [\<lparr>d_response = Some 200, d_now = 1, d_poll = Some 0\<rparr>]
     \<lparr>dev = \<lparr>software_version = 2, device_type = None,
             last_upgrade_status = No_Update, state = Idle\<rparr>, trace = []\<rparr>))) = Downloading"
  using
    download_image_guard [where new_version = 4 and spawn = None and start_time = 0
      and ticks = "[\<lparr>d_response = Some 200, d_now = 1, d_poll = Some 0\<rparr>]"
      and s = "\<lparr>dev = \<lparr>software_version = 2, device_type = None,
             last_upgrade_status = No_Update, state = Positioning\<rparr>, trace = []\<rparr>"]
    download_image_guard [where new_version = 4 and spawn = None and start_time = 0
      and ticks = "[\<lparr>d_response = Some 200, d_now = 1, d_poll = Some 0\<rparr>]"
      and s = "\<lparr>dev = \<lparr>software_version = 2, device_type = None,
             last_upgrade_status = No_Update, state = Idle\<rparr>, trace = []\<rparr>"]
  by simp

text \<open>
  C8. A tick of the download loop checks the connectivity probe first, the timeout second
  and the exit of the process last. A tick on which the probe fails ends the phase with the
  connection-lost record, whatever the clock and the process say; a tick on which the probe
  succeeds and the timeout guard fails ends it with the timeout record even if the process
  has exited; only a tick passing both checks reports the exit of the process as success.
\<close>

theorem download_loop_check_order:
  "(\<not> get_connection_status (d_response t) \<longrightarrow>
      download_loop start_time (t # ticks) s =
        (Returned False,
         s\<lparr>trace := trace s @ [Log ERROR ''Internet connection lost during download.'',
                                Terminate, Process_wait]\<rparr>))
   \<and> (get_connection_status (d_response t) \<and> \<not> check_download_timeout (d_now t) start_time \<longrightarrow>
      download_loop start_time (t # ticks) s =
        (Returned False,
         s\<lparr>trace := trace s @ [Log ERROR ''Download timed out after 300 seconds.'',
                                Terminate, Process_wait]\<rparr>))
   \<and> (get_connection_status (d_response t) \<and> check_download_timeout (d_now t) start_time
        \<and> d_poll t \<noteq> None \<longrightarrow>
      download_loop start_time (t # ticks) s =
        (Returned True, s\<lparr>trace := trace s @ [Log INFO ''Download completed successfully.'']\<rparr>))"
  by (simp add: effect_defs emit_def)

theorem download_loop_check_order_witness:
  "download_loop 0 [\<lparr>d_response = None, d_now = 1000, d_poll = Some 0\<rparr>]
     \<lparr>dev = \<lparr>software_version = 2, device_type = None,
             last_upgrade_status = No_Update, state = Downloading\<rparr>, trace = []\<rparr>
   = (Returned False,
      \<lparr>dev = \<lparr>software_version = 2, device_type = None,
              last_upgrade_status = No_Update, state = Downloading\<rparr>,
       trace = [Log ERROR ''Internet connection lost during download.'',
                Terminate, Process_wait]\<rparr>)
   \<and> download_loop 1000 [\<lparr>d_response = Some 503, d_now = 0, d_poll = Some 0\<rparr>]
     \<lparr>dev = \<lparr>software_version = 2, device_type = None,
             last_upgrade_status = No_Update, state = Downloading\<rparr>, trace = []\<rparr>
   = (Returned False,
      \<lparr>dev = \<lparr>software_version = 2, device_type = None,
              last_upgrade_status = No_Update, state = Downloading\<rparr>,
       trace = [Log ERROR ''Internet connection lost during download.'',
                Terminate, Process_wait]\<rparr>)
   \<and> download_loop 1000 [\<lparr>d_response = Some 200, d_now = 0, d_poll = Some 0\<rparr>]
     \<lparr>dev = \<lparr>software_version = 2, device_type = None,
             last_upgrade_status = No_Update, state = Downloading\<rparr>, trace = []\<rparr>
   = (Returned False,
      \<lparr>dev = \<lparr>software_version = 2, device_type = None,
              last_upgrade_status = No_Update, state = Downloading\<rparr>,
       trace = [Log ERROR ''Download timed out after 300 seconds.'',
                Terminate, Process_wait]\<rparr>)
   \<and> download_loop 0 [\<lparr>d_response = Some 200, d_now = 1, d_poll = Some 0\<rparr>]
     \<lparr>dev = \<lparr>software_version = 2, device_type = None,
             last_upgrade_status = No_Update, state = Downloading\<rparr>, trace = []\<rparr>
   = (Returned True,
      \<lparr>dev = \<lparr>software_version = 2, device_type = None,
              last_upgrade_status = No_Update, state = Downloading\<rparr>,
       trace = [Log INFO ''Download completed successfully.'']\<rparr>)"
  using
    download_loop_check_order [where start_time = 0 and ticks = "[]"
      and t = "\<lparr>d_response = None, d_now = 1000, d_poll = Some 0\<rparr>"
      and s = "\<lparr>dev = \<lparr>software_version = 2, device_type = None,
             last_upgrade_status = No_Update, state = Downloading\<rparr>, trace = []\<rparr>"]
    download_loop_check_order [where start_time = 1000 and ticks = "[]"
      and t = "\<lparr>d_response = Some 503, d_now = 0, d_poll = Some 0\<rparr>"
      and s = "\<lparr>dev = \<lparr>software_version = 2, device_type = None,
             last_upgrade_status = No_Update, state = Downloading\<rparr>, trace = []\<rparr>"]
    download_loop_check_order [where start_time = 1000 and ticks = "[]"
      and t = "\<lparr>d_response = Some 200, d_now = 0, d_poll = Some 0\<rparr>"
      and s = "\<lparr>dev = \<lparr>software_version = 2, device_type = None,
             last_upgrade_status = No_Update, state = Downloading\<rparr>, trace = []\<rparr>"]
    download_loop_check_order [where start_time = 0 and ticks = "[]"
      and t = "\<lparr>d_response = Some 200, d_now = 1, d_poll = Some 0\<rparr>"
      and s = "\<lparr>dev = \<lparr>software_version = 2, device_type = None,
             last_upgrade_status = No_Update, state = Downloading\<rparr>, trace = []\<rparr>"]
  by (simp add: get_connection_status_def check_download_timeout_def
      check_time_not_exceeded_def MAX_DOWNLOAD_TIME_def)

text \<open>
  C3. Once more than \<open>MAX_DOWNLOAD_TIME\<close> has elapsed, with the connection up and the
  spawned process still running, the download phase should terminate the process and fail. With
  the guard of C1 it never does: as long as the clock does not run backwards, every such tick
  only sleeps, no process is terminated and the phase is still polling after the last tick,
  however late that tick is.
\<close>

theorem download_image_never_times_out:
  assumes "state (dev s) = Idle"
    and "\<forall>t \<in> set ticks.
           get_connection_status (d_response t) \<and> d_poll t = None \<and> start_time \<le> d_now t"
  shows "download_image new_version None start_time ticks s =
           (Polling,
            \<lparr>dev = (dev s)\<lparr>state := Downloading\<rparr>,
             trace = trace s
               @ [Log INFO (''Starting software version '' @ str_int new_version @ '' download.''),
                  Set_state Downloading,
                  Popen [''curl'', ''-O'', DOWNLOAD_URL]]
               @ replicate (length ticks) (Sleep POLLING_TIME)\<rparr>)"
proof -
  have loop: "download_loop start_time ticks s' =
      (Polling, s'\<lparr>trace := trace s' @ replicate (length ticks) (Sleep POLLING_TIME)\<rparr>)" for s'
    using assms(2)
  proof (induction ticks arbitrary: s')
    case Nil
    show ?case by simp
  next
    case (Cons t ticks)
    have t: "get_connection_status (d_response t)" "d_poll t = None" "start_time \<le> d_now t"
      using Cons.prems by simp_all
    have c: "check_download_timeout (d_now t) start_time"
      using t(3) by (simp add: check_download_timeout_def check_time_not_exceeded_def
          MAX_DOWNLOAD_TIME_def)
    have "download_loop start_time (t # ticks) s' =
            download_loop start_time ticks (sleep POLLING_TIME s')"
      using t c by simp
    also have "\<dots> = (Polling, (sleep POLLING_TIME s')\<lparr>trace := trace (sleep POLLING_TIME s')
                       @ replicate (length ticks) (Sleep POLLING_TIME)\<rparr>)"
      using Cons.IH Cons.prems by simp
    finally show ?case
      by (simp add: effect_defs emit_def replicate_append_same)
  qed
  show ?thesis
    using assms(1) by (simp add: download_image_spawned loop effect_defs emit_def)
qed

theorem download_image_never_times_out_witness:
  "download_image 3 None 0
     [\<lparr>d_response = Some 200, d_now = 150, d_poll = None\<rparr>,
      \<lparr>d_response = Some 200, d_now = 301, d_poll = None\<rparr>,
      \<lparr>d_response = Some 200, d_now = 1000, d_poll = None\<rparr>]
     \<lparr>dev = \<lparr>software_version = 2, device_type = None,
             last_upgrade_status = No_Update, state = Idle\<rparr>, trace = []\<rparr>
   = (Polling,
      \<lparr>dev = \<lparr>software_version = 2, device_type = None,
              last_upgrade_status = No_Update, state = Downloading\<rparr>,
       trace = [Log INFO ''Starting software version 3 download.'',
                Set_state Downloading,
                Popen [''curl'', ''-O'', DOWNLOAD_URL],
                Sleep POLLING_TIME, Sleep POLLING_TIME, Sleep POLLING_TIME]\<rparr>)"
  using download_image_never_times_out [of
      "\<lparr>dev = \<lparr>software_version = 2, device_type = None,
             last_upgrade_status = No_Update, state = Idle\<rparr>, trace = []\<rparr>"
      "[\<lparr>d_response = Some 200, d_now = 150, d_poll = None\<rparr>,
      \<lparr>d_response = Some 200, d_now = 301, d_poll = None\<rparr>,
      \<lparr>d_response = Some 200, d_now = 1000, d_poll = None\<rparr>]" 0 3]
  by (simp add: get_connection_status_def str_int_def str_nat.simps digit_char_def
      numeral_3_eq_3)

subsection \<open>The install phase\<close>

text \<open>
  C5. In a run of \<open>update\<close> that reaches the install phase (the admission wait
  succeeded, the versions differ and the download returned true), the install phase sets
  the state to \<open>Upgrading\<close> exactly when the target version is greater than or equal to
  the current version, and to \<open>Downgrading\<close> exactly when it is smaller.
\<close>

theorem install_phase_direction:
  assumes "wait Idle get_current_state MAX_WAIT_FOR_IDLE_TIME (wait_start w) (wait_ticks w) s
             = (Returned True, s1)"
    and "software_version (dev s1) \<noteq> new_version"
    and "download_image new_version (download_spawn w) (download_start w) (download_ticks w) s1 = (Returned True, s2)"
  shows "(state (dev (snd (install_image new_version (install_spawn w) (install_start w) (install_ticks w) s2)))
            = Upgrading \<longleftrightarrow> new_version \<ge> software_version (dev s))
       \<and> (state (dev (snd (install_image new_version (install_spawn w) (install_start w) (install_ticks w) s2)))
            = Downgrading \<longleftrightarrow> new_version < software_version (dev s))"
proof -
  have d1: "dev s1 = dev s"
    using wait_dev [of Idle get_current_state MAX_WAIT_FOR_IDLE_TIME "wait_start w" "wait_ticks w" s]
      assms(1) by simp
  have d2: "dev s2 = (dev s1)\<lparr>state := Downloading\<rparr>"
    using download_image_True [of new_version "download_spawn w" "download_start w" "download_ticks w" s1] assms(3)
    by simp
  have "state (dev s2) = Downloading" "software_version (dev s2) = software_version (dev s)"
    using d1 d2 by simp_all
  then show ?thesis
    by (simp add: install_image_dev)
qed

theorem install_phase_direction_witness:
  "state (dev (snd (install_image 4 None 0 []
     (snd (download_image 4 None 0 [\<lparr>d_response = Some 200, d_now = 1, d_poll = Some 0\<rparr>]
        \<lparr>dev = \<lparr>software_version = 2, device_type = None,
                last_upgrade_status = No_Update, state = Idle\<rparr>, trace = []\<rparr>)))))
    = Upgrading"
  using install_phase_direction [where new_version = 4
      and w = "\<lparr>wait_start = 0, wait_ticks = [0], download_spawn = None, download_start = 0,
               download_ticks = [\<lparr>d_response = Some 200, d_now = 1, d_poll = Some 0\<rparr>],
               install_spawn = None, install_start = 0, install_ticks = []\<rparr>"
      and s = "\<lparr>dev = \<lparr>software_version = 2, device_type = None,
                last_upgrade_status = No_Update, state = Idle\<rparr>, trace = []\<rparr>"
      and ?s1.0 = "\<lparr>dev = \<lparr>software_version = 2, device_type = None,
                last_upgrade_status = No_Update, state = Idle\<rparr>, trace = []\<rparr>"
      and ?s2.0 = "snd (download_image 4 None 0
        [\<lparr>d_response = Some 200, d_now = 1, d_poll = Some 0\<rparr>]
        \<lparr>dev = \<lparr>software_version = 2, device_type = None,
                last_upgrade_status = No_Update, state = Idle\<rparr>, trace = []\<rparr>)"]
  by (simp add: model_defs)

subsection \<open>The outcome of an update\<close>

text \<open>
  The two failure branches of \<open>update\<close>: a run that passes the admission wait and the
  same-version check and whose download phase returns false, or whose download phase returns
  true and whose install phase returns false, returns false with \<open>state = Idle\<close> and
  \<open>last_upgrade_status = Failed\<close>; the software version and the device type are those of
  the start.
\<close>

lemma update_phase_failure:
  assumes "wait Idle get_current_state MAX_WAIT_FOR_IDLE_TIME (wait_start w) (wait_ticks w) s
             = (Returned True, s1)"
    and "software_version (dev s1) \<noteq> new_version"
    and "download_image new_version (download_spawn w) (download_start w) (download_ticks w) s1 = (Returned False, s2)
         \<or> (download_image new_version (download_spawn w) (download_start w) (download_ticks w) s1 = (Returned True, s2)
            \<and> fst (install_image new_version (install_spawn w) (install_start w) (install_ticks w) s2)
                = Returned False)"
  shows "fst (update new_version w s) = Returned False
       \<and> dev (snd (update new_version w s)) =
           (dev s)\<lparr>last_upgrade_status := Failed, state := Idle\<rparr>"
proof -
  have d1: "dev s1 = dev s"
    using wait_dev [of Idle get_current_state MAX_WAIT_FOR_IDLE_TIME "wait_start w" "wait_ticks w" s]
      assms(1) by simp
  have idle: "state (dev s1) = Idle"
    using wait_loop_True_idle [of MAX_WAIT_FOR_IDLE_TIME "wait_start w" "wait_ticks w" s]
      assms(1) d1
    by (simp add: wait_def)
  have d2: "dev s2 = (dev s)\<lparr>state := Downloading\<rparr>"
    using download_image_dev [OF idle, of new_version "download_spawn w" "download_start w" "download_ticks w"]
      assms(3) d1 by auto
  from assms(3) show ?thesis
  proof
    assume "download_image new_version (download_spawn w) (download_start w) (download_ticks w) s1 = (Returned False, s2)"
    then show ?thesis
      using assms(1,2) d2 by (simp add: update_def effect_defs)
  next
    assume a: "download_image new_version (download_spawn w) (download_start w) (download_ticks w) s1 = (Returned True, s2)
       \<and> fst (install_image new_version (install_spawn w) (install_start w) (install_ticks w) s2) = Returned False"
    obtain s3 where i: "install_image new_version (install_spawn w) (install_start w) (install_ticks w) s2
        = (Returned False, s3)"
      using a by (cases "install_image new_version (install_spawn w) (install_start w) (install_ticks w) s2") simp
    have "state (dev s2) = Downloading"
      using d2 by simp
    then have "dev s3 = (dev s2)\<lparr>state := (if software_version (dev s2) > new_version
                         then Downgrading else Upgrading)\<rparr>"
      using install_image_dev [of s2 new_version "install_spawn w" "install_start w" "install_ticks w"] i by simp
    then show ?thesis
      using assms(1,2) a i d2 by (simp add: update_def effect_defs)
  qed
qed

lemma update_phase_failure_example:
  "update 4
     \<lparr>wait_start = 0, wait_ticks = [0], download_spawn = None, download_start = 0,
      download_ticks = [\<lparr>d_response = None, d_now = 1, d_poll = None\<rparr>],
      install_spawn = None, install_start = 0, install_ticks = []\<rparr>
     \<lparr>dev = \<lparr>software_version = 2, device_type = None,
             last_upgrade_status = No_Update, state = Idle\<rparr>, trace = []\<rparr>
   = (Returned False,
      \<lparr>dev = \<lparr>software_version = 2, device_type = None,
              last_upgrade_status = Failed, state = Idle\<rparr>,
       trace = [Log INFO ''Starting software version 4 download.'',
                Set_state Downloading,
                Popen [''curl'', ''-O'', DOWNLOAD_URL],
                Log ERROR ''Internet connection lost during download.'',
                Terminate, Process_wait,
                Set_last_upgrade_status Failed, Set_state Idle]\<rparr>)
   \<and> update 1
     \<lparr>wait_start = 0, wait_ticks = [0], download_spawn = None, download_start = 0,
      download_ticks = [\<lparr>d_response = Some 200, d_now = 1, d_poll = Some 0\<rparr>],
      install_spawn = None, install_start = 2,
      install_ticks = [\<lparr>i_battery = Some False, i_now = 3, i_lines = [], i_poll = None\<rparr>]\<rparr>
     \<lparr>dev = \<lparr>software_version = 2, device_type = None,
             last_upgrade_status = No_Update, state = Idle\<rparr>, trace = []\<rparr>
   = (Returned False,
      \<lparr>dev = \<lparr>software_version = 2, device_type = None,
              last_upgrade_status = Failed, state = Idle\<rparr>,
       trace = [Log INFO ''Starting software version 1 download.'',
                Set_state Downloading,
                Popen [''curl'', ''-O'', DOWNLOAD_URL],
                Log INFO ''Download completed successfully.'',
                Log INFO ''Starting software update version 1 installation.'',
                Set_state Downgrading,
                Popen [''sh'', ''install.sh''],
                Log ERROR ''Power loss detected during the upgrade.'',
                Terminate, Process_wait,
                Set_last_upgrade_status Failed, Set_state Idle]\<rparr>)"
  using
    update_phase_failure [where new_version = 4
      and w = "\<lparr>wait_start = 0, wait_ticks = [0], download_spawn = None, download_start = 0,
               download_ticks = [\<lparr>d_response = None, d_now = 1, d_poll = None\<rparr>],
               install_spawn = None, install_start = 0, install_ticks = []\<rparr>"
      and s = "\<lparr>dev = \<lparr>software_version = 2, device_type = None,
                last_upgrade_status = No_Update, state = Idle\<rparr>, trace = []\<rparr>"
      and ?s1.0 = "\<lparr>dev = \<lparr>software_version = 2, device_type = None,
                last_upgrade_status = No_Update, state = Idle\<rparr>, trace = []\<rparr>"
      and ?s2.0 = "snd (download_image 4 None 0 [\<lparr>d_response = None, d_now = 1, d_poll = None\<rparr>]
        \<lparr>dev = \<lparr>software_version = 2, device_type = None,
                last_upgrade_status = No_Update, state = Idle\<rparr>, trace = []\<rparr>)"]
    update_phase_failure [where new_version = 1
      and w = "\<lparr>wait_start = 0, wait_ticks = [0], download_spawn = None, download_start = 0,
               download_ticks = [\<lparr>d_response = Some 200, d_now = 1, d_poll = Some 0\<rparr>],
               install_spawn = None, install_start = 2,
               install_ticks = [\<lparr>i_battery = Some False, i_now = 3, i_lines = [],
                                 i_poll = None\<rparr>]\<rparr>"
      and s = "\<lparr>dev = \<lparr>software_version = 2, device_type = None,
                last_upgrade_status = No_Update, state = Idle\<rparr>, trace = []\<rparr>"
      and ?s1.0 = "\<lparr>dev = \<lparr>software_version = 2, device_type = None,
                last_upgrade_status = No_Update, state = Idle\<rparr>, trace = []\<rparr>"
      and ?s2.0 = "snd (download_image 1 None 0
        [\<lparr>d_response = Some 200, d_now = 1, d_poll = Some 0\<rparr>]
        \<lparr>dev = \<lparr>software_version = 2, device_type = None,
                last_upgrade_status = No_Update, state = Idle\<rparr>, trace = []\<rparr>)"]
  by (simp add: model_defs str_int_def str_nat.simps digit_char_def)

text \<open>
  C6. Every failure of a phase should end the run with \<open>state = Idle\<close> and
  \<open>last_upgrade_status = Failed\<close>, and nothing should leave \<open>update\<close> by an exception.
  The branches above do so for a phase that returns false, but the spawn of the child
  process is not guarded: when \<open>Popen\<close> raises in the download phase (no \<open>curl\<close> on the
  host), the exception leaves \<open>update\<close> after \<open>state = Downloading\<close> was written. The
  device stays in \<open>Downloading\<close> and \<open>last_upgrade_status\<close> is not touched.
\<close>

theorem update_spawn_failure:
  "update 4
     \<lparr>wait_start = 0, wait_ticks = [0],
      download_spawn = Some FileNotFoundError, download_start = 0, download_ticks = [],
      install_spawn = None, install_start = 0, install_ticks = []\<rparr>
     \<lparr>dev = \<lparr>software_version = 2, device_type = None,
             last_upgrade_status = No_Update, state = Idle\<rparr>, trace = []\<rparr>
   = (Raised FileNotFoundError,
      \<lparr>dev = \<lparr>software_version = 2, device_type = None,
              last_upgrade_status = No_Update, state = Downloading\<rparr>,
       trace = [Log INFO ''Starting software version 4 download.'',
                Set_state Downloading,
                Popen [''curl'', ''-O'', DOWNLOAD_URL]]\<rparr>)"
  by (simp add: model_defs str_int_def str_nat.simps digit_char_def)

text \<open>
  C7. A run in which the admission wait, the download phase and the install phase all
  return true returns true; it ends with \<open>last_upgrade_status = Success\<close>, the software
  version equal to the target and \<open>state = Idle\<close>, these three writes being the last
  writes of the run, followed only by the closing log record.
\<close>

theorem update_success:
  assumes "wait Idle get_current_state MAX_WAIT_FOR_IDLE_TIME (wait_start w) (wait_ticks w) s
             = (Returned True, s1)"
    and "software_version (dev s1) \<noteq> new_version"
    and "download_image new_version (download_spawn w) (download_start w) (download_ticks w) s1 = (Returned True, s2)"
    and "install_image new_version (install_spawn w) (install_start w) (install_ticks w) s2 = (Returned True, s3)"
  shows "update new_version w s =
           (Returned True,
            \<lparr>dev = (dev s)\<lparr>software_version := new_version,
                            last_upgrade_status := Success, state := Idle\<rparr>,
             trace = trace s3
               @ [Set_last_upgrade_status Success,
                  Set_software_version new_version,
                  Set_state Idle,
                  Log INFO (''Software update to version '' @ str_int new_version
                              @ '' complete.'')]\<rparr>)"
proof -
  have d1: "dev s1 = dev s"
    using wait_dev [of Idle get_current_state MAX_WAIT_FOR_IDLE_TIME "wait_start w" "wait_ticks w" s]
      assms(1) by simp
  have d2: "dev s2 = (dev s)\<lparr>state := Downloading\<rparr>"
    using download_image_True [of new_version "download_spawn w" "download_start w" "download_ticks w" s1]
      assms(3) d1 by simp
  then have "state (dev s2) = Downloading"
    by simp
  then have d3: "dev s3 = (dev s2)\<lparr>state := (if software_version (dev s2) > new_version
                         then Downgrading else Upgrading)\<rparr>"
    using install_image_dev [of s2 new_version "install_spawn w" "install_start w" "install_ticks w"] assms(4)
    by simp
  show ?thesis
    using assms d2 d3 by (simp add: update_def effect_defs emit_def Let_def)
qed

theorem update_success_witness:
  "update 1
     \<lparr>wait_start = 0, wait_ticks = [0], download_spawn = None, download_start = 0,
      download_ticks = [\<lparr>d_response = Some 200, d_now = 1, d_poll = None\<rparr>,
                        \<lparr>d_response = Some 200, d_now = 2, d_poll = Some 0\<rparr>],
      install_spawn = None, install_start = 2,
      install_ticks = [\<lparr>i_battery = Some True, i_now = 3,
                         i_lines = [''Installing image'' @ [CHR 0x0A]], i_poll = Some 0\<rparr>]\<rparr>
     \<lparr>dev = \<lparr>software_version = 4, device_type = None,
             last_upgrade_status = No_Update, state = Idle\<rparr>, trace = []\<rparr>
   = (Returned True,
      \<lparr>dev = \<lparr>software_version = 1, device_type = None,
              last_upgrade_status = Success, state = Idle\<rparr>,
       trace = [Log INFO ''Starting software version 1 download.'',
                Set_state Downloading,
                Popen [''curl'', ''-O'', DOWNLOAD_URL],
                Sleep POLLING_TIME,
                Log INFO ''Download completed successfully.'',
                Log INFO ''Starting software update version 1 installation.'',
                Set_state Downgrading,
                Popen [''sh'', ''install.sh''],
                Log DEBUG ''Installing image'',
                Log INFO ''Upgrade completed successfully.'',
                Set_last_upgrade_status Success,
                Set_software_version 1,
                Set_state Idle,
                Log INFO ''Software update to version 1 complete.'']\<rparr>)"
  using
    update_success [where new_version = 1
      and w = "\<lparr>wait_start = 0, wait_ticks = [0], download_spawn = None, download_start = 0,
      download_ticks = [\<lparr>d_response = Some 200, d_now = 1, d_poll = None\<rparr>,
                        \<lparr>d_response = Some 200, d_now = 2, d_poll = Some 0\<rparr>],
      install_spawn = None, install_start = 2,
      install_ticks = [\<lparr>i_battery = Some True, i_now = 3,
                         i_lines = [''Installing image'' @ [CHR 0x0A]], i_poll = Some 0\<rparr>]\<rparr>"
      and s = "\<lparr>dev = \<lparr>software_version = 4, device_type = None,
                last_upgrade_status = No_Update, state = Idle\<rparr>, trace = []\<rparr>"
      and ?s1.0 = "\<lparr>dev = \<lparr>software_version = 4, device_type = None,
                last_upgrade_status = No_Update, state = Idle\<rparr>, trace = []\<rparr>"
      and ?s2.0 = "snd (download_image 1 None 0
        [\<lparr>d_response = Some 200, d_now = 1, d_poll = None\<rparr>,
         \<lparr>d_response = Some 200, d_now = 2, d_poll = Some 0\<rparr>]
        \<lparr>dev = \<lparr>software_version = 4, device_type = None,
                last_upgrade_status = No_Update, state = Idle\<rparr>, trace = []\<rparr>)"
      and ?s3.0 = "snd (install_image 1 None 2
        [\<lparr>i_battery = Some True, i_now = 3,
          i_lines = [''Installing image'' @ [CHR 0x0A]], i_poll = Some 0\<rparr>]
        (snd (download_image 1 None 0
        [\<lparr>d_response = Some 200, d_now = 1, d_poll = None\<rparr>,
         \<lparr>d_response = Some 200, d_now = 2, d_poll = Some 0\<rparr>]
        \<lparr>dev = \<lparr>software_version = 4, device_type = None,
                last_upgrade_status = No_Update, state = Idle\<rparr>, trace = []\<rparr>)))"]
  by (simp add: model_defs str_int_def str_nat.simps digit_char_def strip_def is_space_def)

text \<open>
  C10. Observed from a trace without earlier writes of \<open>last_upgrade_status\<close>,
  \<open>update\<close> returns true exactly when the run writes
  \<open>last_upgrade_status = Success\<close>, which is exactly when the admission wait and both
  phases return true on differing versions; the status is then \<open>Success\<close>. A request for
  the current version returns false like a failed run, yet writes no status at all.
\<close>

theorem update_returns_True_iff:
  assumes "\<forall>v. Set_last_upgrade_status v \<notin> set (trace s)"
  shows "(fst (update new_version w s) = Returned True \<longleftrightarrow>
            Set_last_upgrade_status Success \<in> set (trace (snd (update new_version w s))))
       \<and> (fst (update new_version w s) = Returned True \<longleftrightarrow>
            fst (wait Idle get_current_state MAX_WAIT_FOR_IDLE_TIME
                   (wait_start w) (wait_ticks w) s) = Returned True
            \<and> software_version (dev s) \<noteq> new_version
            \<and> fst (download_image new_version (download_spawn w) (download_start w) (download_ticks w)
                     (snd (wait Idle get_current_state MAX_WAIT_FOR_IDLE_TIME
                             (wait_start w) (wait_ticks w) s))) = Returned True
            \<and> fst (install_image new_version (install_spawn w) (install_start w) (install_ticks w)
                     (snd (download_image new_version (download_spawn w) (download_start w) (download_ticks w)
                        (snd (wait Idle get_current_state MAX_WAIT_FOR_IDLE_TIME
                                (wait_start w) (wait_ticks w) s))))) = Returned True)
       \<and> (fst (update new_version w s) = Returned True \<longrightarrow>
            last_upgrade_status (dev (snd (update new_version w s))) = Success)
       \<and> (fst (wait Idle get_current_state MAX_WAIT_FOR_IDLE_TIME
                   (wait_start w) (wait_ticks w) s) = Returned True
            \<and> software_version (dev s) = new_version \<longrightarrow>
            fst (update new_version w s) = Returned False
            \<and> last_upgrade_status (dev (snd (update new_version w s)))
                = last_upgrade_status (dev s)
            \<and> (\<forall>v. Set_last_upgrade_status v \<notin> set (trace (snd (update new_version w s)))))"
proof -
  obtain r1 s1 where W: "wait Idle get_current_state MAX_WAIT_FOR_IDLE_TIME
      (wait_start w) (wait_ticks w) s = (r1, s1)"
    by (cases "wait Idle get_current_state MAX_WAIT_FOR_IDLE_TIME
      (wait_start w) (wait_ticks w) s")
  obtain r2 s2 where D: "download_image new_version (download_spawn w) (download_start w) (download_ticks w) s1
      = (r2, s2)"
    by (cases "download_image new_version (download_spawn w) (download_start w) (download_ticks w) s1")
  obtain r3 s3 where I: "install_image new_version (install_spawn w) (install_start w) (install_ticks w) s2
      = (r3, s3)"
    by (cases "install_image new_version (install_spawn w) (install_start w) (install_ticks w) s2")
  have d1: "dev s1 = dev s"
    using wait_dev [of Idle get_current_state MAX_WAIT_FOR_IDLE_TIME "wait_start w" "wait_ticks w" s]
      W by simp
  obtain e1 where e1: "trace s1 = trace s @ e1" "\<forall>v. Set_last_upgrade_status v \<notin> set e1"
    using wait_trace [of Idle get_current_state MAX_WAIT_FOR_IDLE_TIME
        "wait_start w" "wait_ticks w" s] W by auto
  obtain e2 where e2: "trace s2 = trace s1 @ e2" "\<forall>v. Set_last_upgrade_status v \<notin> set e2"
    using download_image_trace [of new_version "download_spawn w" "download_start w" "download_ticks w" s1] D
    by auto
  obtain e3 where e3: "trace s3 = trace s2 @ e3" "\<forall>v. Set_last_upgrade_status v \<notin> set e3"
    using install_image_trace [of new_version "install_spawn w" "install_start w" "install_ticks w" s2] I
    by auto
  have n1: "\<forall>v. Set_last_upgrade_status v \<notin> set (trace s1)"
    using assms e1 by simp
  have n2: "\<forall>v. Set_last_upgrade_status v \<notin> set (trace s2)"
    using n1 e2 by simp
  have n3: "\<forall>v. Set_last_upgrade_status v \<notin> set (trace s3)"
    using n2 e3 by simp
  have U: "update new_version w s =
     (case r1 of Polling \<Rightarrow> (Polling, s1)
      | Raised e \<Rightarrow> (Raised e, s1)
      | Returned b1 \<Rightarrow>
          if \<not> b1 then
            (Returned False,
             logger ERROR
               ''The update could not be performed as the device state is not idle.'' s1)
          else if software_version (dev s) = new_version then
            (Returned False,
             logger INFO ''The current version and the new version are the same.'' s1)
          else
            (case r2 of Polling \<Rightarrow> (Polling, s2)
             | Raised e \<Rightarrow> (Raised e, s2)
             | Returned b2 \<Rightarrow>
                 if \<not> b2 then
                   (Returned False, set_state Idle (set_last_upgrade_status Failed s2))
                 else
                   (case r3 of Polling \<Rightarrow> (Polling, s3)
                    | Raised e \<Rightarrow> (Raised e, s3)
                    | Returned b3 \<Rightarrow>
                        if \<not> b3 then
                          (Returned False, set_state Idle (set_last_upgrade_status Failed s3))
                        else
                          (Returned True,
                           logger INFO
                             (''Software update to version '' @ str_int new_version
                                @ '' complete.'')
                             (set_state Idle (set_software_version new_version
                                (set_last_upgrade_status Success s3)))))))"
    using W D I d1 by (simp add: update_def Let_def split: outcome.splits)
  have p1: "fst (update new_version w s) = Returned True \<longleftrightarrow>
            Set_last_upgrade_status Success \<in> set (trace (snd (update new_version w s)))"
    unfolding U using n1 n2 n3 by (simp add: effect_defs split: outcome.splits)
  have p2: "fst (update new_version w s) = Returned True \<longleftrightarrow>
            r1 = Returned True \<and> software_version (dev s) \<noteq> new_version
            \<and> r2 = Returned True \<and> r3 = Returned True"
    unfolding U by (auto split: outcome.splits)
  have p3: "fst (update new_version w s) = Returned True \<longrightarrow>
            last_upgrade_status (dev (snd (update new_version w s))) = Success"
    unfolding U by (simp add: effect_defs split: outcome.splits)
  have p4: "r1 = Returned True \<and> software_version (dev s) = new_version \<longrightarrow>
            fst (update new_version w s) = Returned False
            \<and> last_upgrade_status (dev (snd (update new_version w s)))
                = last_upgrade_status (dev s)
            \<and> (\<forall>v. Set_last_upgrade_status v \<notin> set (trace (snd (update new_version w s))))"
    unfolding U using n1 d1 by (simp add: effect_defs)
  show ?thesis
    using p1 p2 p3 p4 by (simp add: W D I)
qed

theorem update_returns_True_iff_witness:
  "fst (update 2
     \<lparr>wait_start = 0, wait_ticks = [0],
      download_spawn = None, download_start = 0, download_ticks = [], install_spawn = None, install_start = 0, install_ticks = []\<rparr>
     \<lparr>dev = \<lparr>software_version = 2, device_type = None,
             last_upgrade_status = No_Update, state = Idle\<rparr>, trace = []\<rparr>) = Returned False
   \<and> last_upgrade_status (dev (snd (update 2
     \<lparr>wait_start = 0, wait_ticks = [0],
      download_spawn = None, download_start = 0, download_ticks = [], install_spawn = None, install_start = 0, install_ticks = []\<rparr>
     \<lparr>dev = \<lparr>software_version = 2, device_type = None,
             last_upgrade_status = No_Update, state = Idle\<rparr>, trace = []\<rparr>))) = No_Update
   \<and> fst (update 3
     \<lparr>wait_start = 0, wait_ticks = [0], download_spawn = None, download_start = 0,
      download_ticks = [\<lparr>d_response = Some 200, d_now = 1, d_poll = Some 0\<rparr>],
      install_spawn = None, install_start = 2,
      install_ticks = [\<lparr>i_battery = Some True, i_now = 3, i_lines = [], i_poll = Some 0\<rparr>]\<rparr>
     \<lparr>dev = \<lparr>software_version = 2, device_type = None,
             last_upgrade_status = No_Update, state = Idle\<rparr>, trace = []\<rparr>) = Returned True
   \<and> last_upgrade_status (dev (snd (update 3
     \<lparr>wait_start = 0, wait_ticks = [0], download_spawn = None, download_start = 0,
      download_ticks = [\<lparr>d_response = Some 200, d_now = 1, d_poll = Some 0\<rparr>],
      install_spawn = None, install_start = 2,
      install_ticks = [\<lparr>i_battery = Some True, i_now = 3, i_lines = [], i_poll = Some 0\<rparr>]\<rparr>
     \<lparr>dev = \<lparr>software_version = 2, device_type = None,
             last_upgrade_status = No_Update, state = Idle\<rparr>, trace = []\<rparr>))) = Success"
  using
    update_returns_True_iff [where new_version = 2
      and w = "\<lparr>wait_start = 0, wait_ticks = [0],
        download_spawn = None, download_start = 0, download_ticks = [], install_spawn = None, install_start = 0, install_ticks = []\<rparr>"
      and s = "\<lparr>dev = \<lparr>software_version = 2, device_type = None,
             last_upgrade_status = No_Update, state = Idle\<rparr>, trace = []\<rparr>"]
    update_returns_True_iff [where new_version = 3
      and w = "\<lparr>wait_start = 0, wait_ticks = [0], download_spawn = None, download_start = 0,
        download_ticks = [\<lparr>d_response = Some 200, d_now = 1, d_poll = Some 0\<rparr>],
        install_spawn = None, install_start = 2,
        install_ticks = [\<lparr>i_battery = Some True, i_now = 3, i_lines = [], i_poll = Some 0\<rparr>]\<rparr>"
      and s = "\<lparr>dev = \<lparr>software_version = 2, device_type = None,
             last_upgrade_status = No_Update, state = Idle\<rparr>, trace = []\<rparr>"]
  by (simp add: model_defs)

end
